theory Spec2Isabelle
  imports Complex_Main "HOL-Library.AList"
begin

section \<open>Python building blocks used by main.py\<close>

text \<open>
  A Python \<open>str\<close> is a \<open>string\<close>; one \<open>char\<close> stands for one character of the Python
  string, so \<open>length\<close> is Python's \<open>len\<close> and \<open>take\<close> is a prefix slice. A \<open>dict\<close> is
  an association list with distinct keys in insertion order: \<open>map_of\<close> reads a key,
  \<open>AList.update\<close> is the assignment \<open>d[k] = v\<close> (an existing key keeps its place, a new
  key goes to the end), the length of the list is \<open>len(d)\<close>.
\<close>

text \<open>\<open>sep.join(xs)\<close>.\<close>

fun py_join :: "string \<Rightarrow> string list \<Rightarrow> string" where
  "py_join sep [] = []"
| "py_join sep [x] = x"
| "py_join sep (x # y # ys) = x @ sep @ py_join sep (y # ys)"

text \<open>
  The open-ended slice \<open>xs[i:]\<close>: a negative start counts from the end and is clamped
  at the beginning of the list, a start beyond the end gives the empty list.
\<close>

definition py_slice_from :: "'a list \<Rightarrow> int \<Rightarrow> 'a list" where
  "py_slice_from xs i =
     (let n = int (length xs);
          start = (if i < 0 then max 0 (n + i) else min i n)
      in drop (nat start) xs)"

text \<open>The prefix slice \<open>xs[:k]\<close> for a literal \<open>k \<ge> 0\<close> is \<open>take k xs\<close>.\<close>

text \<open>
  \<open>str.isspace\<close> on one character and \<open>str.strip()\<close> without argument: the white space
  of Python among the first 256 code points.
\<close>

definition isspace :: "char \<Rightarrow> bool" where
  "isspace c =
     (let n = (of_char c :: nat)
      in (9 \<le> n \<and> n \<le> 13) \<or> (28 \<le> n \<and> n \<le> 32) \<or> n = 133 \<or> n = 160)"

definition strip :: "string \<Rightarrow> string" where
  "strip s = rev (dropWhile isspace (rev (dropWhile isspace s)))"

text \<open>
  \<open>max(items, key=lambda x: x[1])\<close> on a non-empty sequence: the scan keeps the first
  item and replaces it only by an item whose key is strictly greater, so among items
  of equal key the earliest one is returned.
\<close>

fun py_max_scan :: "('k \<times> int) \<Rightarrow> ('k \<times> int) list \<Rightarrow> ('k \<times> int)" where
  "py_max_scan best [] = best"
| "py_max_scan best (x # xs) = py_max_scan (if snd best < snd x then x else best) xs"


section \<open>Data model\<close>

text \<open>One entry of the \<open>EXECUTIVES\<close> dictionary.\<close>

record executive =
  name :: string
  title :: string
  department :: string
  personality :: string
  expertise :: "string list"

text \<open>The request body \<open>ExecutiveResponse\<close> of the endpoint \<open>/api/executive-response\<close>.\<close>

record ExecutiveResponse =
  message :: string
  executives :: "string list"

text \<open>
  One element of \<open>chat_history\<close>: the dictionary \<open>chat_entry\<close> with its four keys
  \<open>timestamp\<close>, \<open>message\<close>, \<open>executives\<close> and \<open>responses\<close>.
\<close>

record chat_entry =
  ce_timestamp :: string
  ce_message :: string
  ce_executives :: "string list"
  ce_responses :: "(string \<times> string) list"

text \<open>The dictionary \<open>analytics_data\<close>.\<close>

record analytics =
  total_conversations :: int
  executive_usage :: "(string \<times> int) list"
  daily_stats :: "(string \<times> int) list"
  response_times :: "real list"

text \<open>The two module-level variables that the endpoints mutate.\<close>

record state =
  chat_history :: "chat_entry list"
  analytics_data :: analytics

definition initial_state :: state where
  "initial_state =
     \<lparr>chat_history = [],
      analytics_data = \<lparr>total_conversations = 0, executive_usage = [],
                        daily_stats = [], response_times = []\<rparr>\<rparr>"

text \<open>The value returned by \<open>get_executive_responses\<close>.\<close>

record reply =
  responses :: "(string \<times> string) list"
  timestamp :: string
  executives_consulted :: int

text \<open>The value returned by \<open>get_analytics\<close>.\<close>

record analytics_reply =
  ar_total_conversations :: int
  ar_executive_usage :: "(string \<times> int) list"
  ar_daily_stats :: "(string \<times> int) list"
  ar_average_response_time :: real
  ar_most_popular_executive :: "string option"

text \<open>
  The latency samples are Python floats. A sample is named by the real number it
  denotes; it is stored and handed on as it is. The arithmetic of \<open>get_analytics\<close> on
  them is binary floating point, whose results are not those of the real numbers and
  depend on the interpreter (the summation of \<open>sum\<close> is compensated in recent versions
  of CPython and plain in earlier ones). The three operations are therefore taken from
  the interpreter, and nothing is assumed about them: \<open>sum(xs)\<close>, \<open>x / n\<close> for a
  float \<open>x\<close> and the length \<open>n\<close> of a list, and \<open>round(x, 2)\<close>.
\<close>

record float_ops =
  float_sum :: "real list \<Rightarrow> real"
  float_div :: "real \<Rightarrow> nat \<Rightarrow> real"
  float_round2 :: "real \<Rightarrow> real"

datatype py_exception = PyException string

datatype http_exception = HTTPException int string

text \<open>
  What one evaluation of
  \<open>client.chat.completions.create(...).choices[0].message.content\<close> gives: it raises
  (the request fails, \<open>choices\<close> is empty, \<open>content\<close> is \<open>None\<close>), or it is a string.
\<close>

datatype completion = Raised py_exception | Content string

text \<open>
  What one call of the endpoint reads from outside: the generation service, asked by
  the task at position \<open>i\<close> of the fan-out with a system prompt and the user message,
  and the clock (the ISO time stamp of the entry, the seconds elapsed since the start
  of the call, the date of the day).
\<close>

record env =
  client :: "nat \<Rightarrow> string \<Rightarrow> string \<Rightarrow> completion"
  now_iso :: string
  elapsed :: real
  today :: string


section \<open>The registry\<close>

definition EXECUTIVES :: "(string \<times> executive) list" where
  "EXECUTIVES =
   [(''garrett'', \<lparr>name = ''Garrett'', title = ''Chief Executive Officer (CEO)'',
      department = ''Executive'',
      personality = ''Visionary leader focused on strategic direction, market positioning, and long-term growth. Thinks big picture and makes decisive calls.'',
      expertise = [''Strategic Vision'', ''Leadership'', ''Market Positioning'', ''Stakeholder Relations'', ''Corporate Strategy'']\<rparr>),
    (''melon'', \<lparr>name = ''Melon'', title = ''Chief Operating Officer (COO)'',
      department = ''Executive'',
      personality = ''Operations-focused executive who optimizes processes, improves efficiency, and ensures smooth day-to-day operations.'',
      expertise = [''Operations Management'', ''Process Optimization'', ''Efficiency'', ''Team Coordination'', ''Operational Strategy'']\<rparr>),
    (''steve'', \<lparr>name = ''Steve'', title = ''Chief Technology Officer (CTO)'',
      department = ''Executive'',
      personality = ''Technology strategist who drives innovation, scalable solutions, and digital transformation initiatives.'',
      expertise = [''Technology Strategy'', ''Innovation'', ''Scalable Architecture'', ''Digital Transformation'', ''Tech Leadership'']\<rparr>),
    (''grant'', \<lparr>name = ''Grant'', title = ''Chief Strategy Officer (CSO)'',
      department = ''Executive'',
      personality = ''Strategic analyst who provides competitive intelligence, market analysis, and strategic planning insights.'',
      expertise = [''Strategic Analysis'', ''Competitive Intelligence'', ''Market Research'', ''Business Planning'', ''Growth Strategy'']\<rparr>),
    (''xander'', \<lparr>name = ''Xander'', title = ''Chief Financial Officer (CFO)'',
      department = ''Finance'',
      personality = ''Financial strategist focused on ROI analysis, risk management, and sustainable financial growth.'',
      expertise = [''Financial Strategy'', ''ROI Analysis'', ''Risk Management'', ''Financial Planning'', ''Investment Strategy'']\<rparr>),
    (''sarah'', \<lparr>name = ''Sarah'', title = ''Bookkeeper'',
      department = ''Finance'',
      personality = ''Detail-oriented financial professional ensuring accuracy in accounting, compliance, and financial records.'',
      expertise = [''Accounting'', ''Compliance'', ''Financial Records'', ''Bookkeeping'', ''Financial Controls'']\<rparr>),
    (''don'', \<lparr>name = ''Don'', title = ''Investment Manager'',
      department = ''Finance'',
      personality = ''Portfolio management expert focused on investment strategy and maximizing returns while managing risk.'',
      expertise = [''Portfolio Management'', ''Investment Strategy'', ''Asset Allocation'', ''Risk Assessment'', ''Market Analysis'']\<rparr>),
    (''aleks'', \<lparr>name = ''Aleks'', title = ''Chief Marketing Officer (CMO)'',
      department = ''Marketing'',
      personality = ''Marketing strategist who drives brand management, customer engagement, and market positioning.'',
      expertise = [''Marketing Strategy'', ''Brand Management'', ''Customer Engagement'', ''Market Positioning'', ''Growth Marketing'']\<rparr>),
    (''ashley'', \<lparr>name = ''Ashley'', title = ''Creative Director'',
      department = ''Marketing'',
      personality = ''Creative visionary who develops visual identity, creative concepts, and brand aesthetics.'',
      expertise = [''Visual Identity'', ''Creative Concepts'', ''Brand Aesthetics'', ''Design Strategy'', ''Creative Leadership'']\<rparr>),
    (''gray'', \<lparr>name = ''Gray'', title = ''Brand Strategist'',
      department = ''Marketing'',
      personality = ''Brand positioning expert who conducts market research and develops brand strategy.'',
      expertise = [''Brand Positioning'', ''Market Research'', ''Brand Strategy'', ''Consumer Insights'', ''Brand Development'']\<rparr>),
    (''yu'', \<lparr>name = ''Yu'', title = ''Ad Strategist'',
      department = ''Marketing'',
      personality = ''Performance marketing specialist focused on campaign optimization and measurable results.'',
      expertise = [''Performance Marketing'', ''Campaign Optimization'', ''Digital Advertising'', ''Analytics'', ''Conversion Optimization'']\<rparr>),
    (''jimmy'', \<lparr>name = ''Jimmy'', title = ''Content Strategist'',
      department = ''Marketing'',
      personality = ''Content marketing expert who develops storytelling strategies and content frameworks.'',
      expertise = [''Content Marketing'', ''Storytelling'', ''Content Strategy'', ''Editorial Planning'', ''Content Distribution'']\<rparr>),
    (''alejandra'', \<lparr>name = ''Alejandra'', title = ''Graphic Designer'',
      department = ''Marketing'',
      personality = ''Visual design specialist who creates brand assets and maintains visual consistency.'',
      expertise = [''Visual Design'', ''Brand Assets'', ''Graphic Design'', ''Visual Communication'', ''Design Systems'']\<rparr>),
    (''kimberly'', \<lparr>name = ''Kimberly'', title = ''HR Director'',
      department = ''Human Resources'',
      personality = ''People management expert focused on organizational development and team dynamics.'',
      expertise = [''People Management'', ''Organizational Development'', ''Team Dynamics'', ''HR Strategy'', ''Talent Management'']\<rparr>),
    (''lauren'', \<lparr>name = ''Lauren'', title = ''Numerologist'',
      department = ''Human Resources'',
      personality = ''Analytics specialist who provides data insights, forecasting, and performance metrics.'',
      expertise = [''Analytics'', ''Data Insights'', ''Forecasting'', ''Performance Metrics'', ''Statistical Analysis'']\<rparr>),
    (''garyn'', \<lparr>name = ''Garyn'', title = ''Chief Real Estate Officer (CREO)'',
      department = ''Real Estate'',
      personality = ''Real estate strategist focused on property management and real estate investment strategy.'',
      expertise = [''Real Estate Strategy'', ''Property Management'', ''Real Estate Investment'', ''Market Analysis'', ''Portfolio Optimization'']\<rparr>),
    (''jace'', \<lparr>name = ''Jace'', title = ''Creative Finance Director'',
      department = ''Real Estate'',
      personality = ''Real estate financing expert who develops creative investment structures and financing solutions.'',
      expertise = [''Real Estate Financing'', ''Investment Structures'', ''Creative Financing'', ''Capital Strategy'', ''Deal Structuring'']\<rparr>),
    (''wise'', \<lparr>name = ''Wise'', title = ''Acquisitions Director'',
      department = ''Real Estate'',
      personality = ''Property acquisition specialist focused on market analysis and investment opportunities.'',
      expertise = [''Property Acquisition'', ''Market Analysis'', ''Investment Opportunities'', ''Due Diligence'', ''Deal Evaluation'']\<rparr>)]"

text \<open>The test \<open>exec_id in EXECUTIVES\<close>.\<close>

definition in_EXECUTIVES :: "string \<Rightarrow> bool" where
  "in_EXECUTIVES exec_id = (map_of EXECUTIVES exec_id \<noteq> None)"


section \<open>Helper functions\<close>

subsection \<open>\<open>track_analytics\<close>\<close>

text \<open>
  The counting step that \<open>track_analytics\<close> applies to \<open>executive_usage\<close> and to
  \<open>daily_stats\<close>: \<open>if k in d: d[k] += 1 else: d[k] = 1\<close>.
\<close>

definition bump :: "string \<Rightarrow> (string \<times> int) list \<Rightarrow> (string \<times> int) list" where
  "bump k d =
     (case map_of d k of
        Some c \<Rightarrow> AList.update k (c + 1) d
      | None \<Rightarrow> AList.update k 1 d)"

text \<open>
  \<open>track_analytics(executive_list, response_time)\<close>; the first argument is the date
  string that \<open>datetime.now().strftime("%Y-%m-%d")\<close> gives during the call.
\<close>

definition track_analytics :: "string \<Rightarrow> string list \<Rightarrow> real \<Rightarrow> analytics \<Rightarrow> analytics" where
  "track_analytics day executive_list response_time a =
     \<lparr>total_conversations = total_conversations a + 1,
      executive_usage = fold bump executive_list (executive_usage a),
      daily_stats = bump day (daily_stats a),
      response_times = response_times a @ [response_time]\<rparr>"

subsection \<open>\<open>send_slack_notification\<close>\<close>

text \<open>
  The payload posted to the webhook. Its constant parts (the headline text, the colour,
  the two field titles, the footer) are the same in every payload and are left out;
  kept are the values of the fields "Executives Consulted" and "Discussion Topic" and
  the time stamp \<open>ts\<close>.
\<close>

record slack_payload =
  consulted :: string
  topic :: string
  ts :: int

datatype post_outcome = PostRaised py_exception | Status int

text \<open>
  What the notification reads from outside: the variable \<open>SLACK_WEBHOOK_URL\<close> (\<open>None\<close>
  when the environment does not set it), the clock, and the answer of
  \<open>requests.post\<close>.
\<close>

record slack_env =
  SLACK_WEBHOOK_URL :: "string option"
  now_ts :: int
  post :: "slack_payload \<Rightarrow> post_outcome"

text \<open>The dictionary \<open>slack_payload\<close> built for a message and a list of ids.\<close>

definition render_payload :: "int \<Rightarrow> string \<Rightarrow> string list \<Rightarrow> slack_payload" where
  "render_payload now msg execs =
     (let exec_names = map (\<lambda>exec_id. name (the (map_of EXECUTIVES exec_id)))
                           (filter in_EXECUTIVES execs)
      in \<lparr>consulted = py_join '', '' exec_names,
          topic = (if length msg > 200 then take 200 msg @ ''...'' else msg),
          ts = now\<rparr>)"

text \<open>
  \<open>send_slack_notification(message, executives)\<close>: the payload that was posted, if
  one was, and the Boolean the function returns. Every exception ends in \<open>False\<close>.
\<close>

definition send_slack_notification ::
  "slack_env \<Rightarrow> string \<Rightarrow> string list \<Rightarrow> slack_payload option \<times> bool" where
  "send_slack_notification e msg execs =
     (case SLACK_WEBHOOK_URL e of
        None \<Rightarrow> (None, False)
      | Some url \<Rightarrow>
          if url = [] then (None, False)
          else (let p = render_payload (now_ts e) msg execs
                in case post e p of
                     PostRaised x \<Rightarrow> (Some p, False)
                   | Status code \<Rightarrow> (Some p, code = 200)))"

subsection \<open>\<open>get_executive_response\<close>\<close>

definition system_prompt :: "executive \<Rightarrow> string \<Rightarrow> string" where
  "system_prompt ex context =
     (let p = ''You are '' @ name ex @ '', '' @ title ex @ '' at a company. '' @ [CHR 0x0A]
            @ ''        '' @ [CHR 0x0A]
            @ ''Your personality: '' @ personality ex @ [CHR 0x0A]
            @ ''Your expertise: '' @ py_join '', '' (expertise ex) @ [CHR 0x0A]
            @ ''Department: '' @ department ex @ [CHR 0x0A]
            @ [CHR 0x0A]
            @ ''Respond as this executive would, drawing on your specific expertise and personality. '' @ [CHR 0x0A]
            @ ''Keep responses focused, actionable, and in character. Aim for 2-3 paragraphs maximum.'' @ [CHR 0x0A]
      in if context \<noteq> []
         then p @ [CHR 0x0A, CHR 0x0A] @ ''Conversation context: '' @ context
         else p)"

definition not_found_text :: "string \<Rightarrow> string" where
  "not_found_text executive_id = ''Executive '' @ executive_id @ '' not found.''"

definition unable_text :: string where
  "unable_text = ''I apologize, but I'' @ [CHR 0x27] @ ''m currently unable to provide a response. Please try again shortly.''"

text \<open>
  The body of the \<open>try\<close> block: \<open>Inl\<close> is an exception that leaves the block, \<open>Inr\<close> the
  value of a \<open>return\<close>.
\<close>

definition get_executive_response_try ::
  "(string \<Rightarrow> string \<Rightarrow> completion) \<Rightarrow> string \<Rightarrow> string \<Rightarrow> string \<Rightarrow> py_exception + string" where
  "get_executive_response_try create executive_id msg context =
     (case map_of EXECUTIVES executive_id of
        None \<Rightarrow> Inr (not_found_text executive_id)
      | Some ex \<Rightarrow>
          (case create (system_prompt ex context) msg of
             Raised x \<Rightarrow> Inl x
           | Content c \<Rightarrow> Inr (strip c)))"

text \<open>
  The coroutine \<open>get_executive_response\<close> with its \<open>except Exception\<close> clause. The result
  is what awaiting it gives: \<open>Inl\<close> an exception that escapes, \<open>Inr\<close> the returned string.
\<close>

definition get_executive_response ::
  "(string \<Rightarrow> string \<Rightarrow> completion) \<Rightarrow> string \<Rightarrow> string \<Rightarrow> string \<Rightarrow> py_exception + string" where
  "get_executive_response create executive_id msg context =
     (case get_executive_response_try create executive_id msg context of
        Inl x \<Rightarrow> Inr unable_text
      | Inr s \<Rightarrow> Inr s)"


section \<open>Endpoints\<close>

subsection \<open>\<open>get_executive_responses\<close>\<close>

text \<open>
  The conversation context. No entry of \<open>chat_history\<close> has a key \<open>user\<close>, so
  \<open>msg.get('user', 'User')\<close> is the default \<open>'User'\<close>; every entry has the key
  \<open>message\<close>.
\<close>

definition conversation_context :: "chat_entry list \<Rightarrow> string" where
  "conversation_context history =
     (if length history > 0
      then (let recent_messages = py_slice_from history (- 3)
            in py_join '' | '' (map (\<lambda>msg. ''User'' @ '': '' @ ce_message msg) recent_messages))
      else [])"

text \<open>The ids of the list \<open>tasks\<close>: one task for every requested id of the registry.\<close>

definition tasks :: "ExecutiveResponse \<Rightarrow> string list" where
  "tasks request = filter in_EXECUTIVES (executives request)"

text \<open>
  \<open>asyncio.gather(..., return_exceptions=True)\<close>: the list of what the tasks gave, in
  the order of \<open>tasks\<close>, an escaped exception being an element of the list.
\<close>

definition gather_results :: "env \<Rightarrow> ExecutiveResponse \<Rightarrow> string \<Rightarrow> (py_exception + string) list" where
  "gather_results e request context =
     map (\<lambda>(i, executive_id). get_executive_response (client e i) executive_id (message request) context)
         (enumerate 0 (tasks request))"

definition unavailable_text :: string where
  "unavailable_text = ''I apologize, but I'' @ [CHR 0x27] @ ''m currently unavailable. Please try again.''"

text \<open>The loop "Process results" over \<open>enumerate(tasks)\<close>, starting from \<open>responses = {}\<close>.\<close>

definition store_result :: "string \<times> (py_exception + string) \<Rightarrow> (string \<times> string) list \<Rightarrow> (string \<times> string) list" where
  "store_result p rs =
     (case snd p of
        Inl x \<Rightarrow> AList.update (fst p) unavailable_text rs
      | Inr s \<Rightarrow> AList.update (fst p) s rs)"

definition process_results :: "string list \<Rightarrow> (py_exception + string) list \<Rightarrow> (string \<times> string) list" where
  "process_results ids results = fold store_result (zip ids results) []"

text \<open>
  The body of the \<open>try\<close> block of the endpoint. Nothing in it raises: the tasks are
  awaited through \<open>gather\<close>, which hands exceptions over as values. The context is
  read from \<open>chat_history\<close> before the tasks are awaited, the history and the counters
  are updated after; other calls may run in between, so the history that the context
  is read from, \<open>history_at_start\<close>, is an argument of its own beside the state
  \<open>st\<close> that the call updates. The Slack notification is scheduled and never awaited;
  it changes neither the reply nor the state.
\<close>

definition get_executive_responses_try ::
  "env \<Rightarrow> chat_entry list \<Rightarrow> state \<Rightarrow> ExecutiveResponse \<Rightarrow> py_exception + (reply \<times> state)" where
  "get_executive_responses_try e history_at_start st request =
     (let context = conversation_context history_at_start;
          results = gather_results e request context;
          rs = process_results (tasks request) results;
          entry = \<lparr>ce_timestamp = now_iso e, ce_message = message request,
                   ce_executives = executives request, ce_responses = rs\<rparr>;
          history = chat_history st @ [entry];
          a = track_analytics (today e) (executives request) (elapsed e) (analytics_data st)
      in Inr (\<lparr>responses = rs, timestamp = ce_timestamp entry,
                executives_consulted = int (length rs)\<rparr>,
              \<lparr>chat_history = history, analytics_data = a\<rparr>))"

text \<open>
  The endpoint: \<open>Inr\<close> is the reply with the state after the call, \<open>Inl\<close> the
  \<open>HTTPException\<close> of the \<open>except\<close> clause, which leaves the state of the model as it was.
\<close>

definition get_executive_responses ::
  "env \<Rightarrow> chat_entry list \<Rightarrow> state \<Rightarrow> ExecutiveResponse \<Rightarrow> http_exception + (reply \<times> state)" where
  "get_executive_responses e history_at_start st request =
     (case get_executive_responses_try e history_at_start st request of
        Inl x \<Rightarrow> Inl (HTTPException 500 ''Internal server error'')
      | Inr r \<Rightarrow> Inr r)"

subsection \<open>\<open>get_chat_history\<close>\<close>

definition get_chat_history :: "state \<Rightarrow> int \<Rightarrow> chat_entry list" where
  "get_chat_history st limit = py_slice_from (chat_history st) (- limit)"

subsection \<open>\<open>get_analytics\<close>\<close>

text \<open>
  Without samples the average is the integer 0, and \<open>round(0, 2)\<close> of an integer is
  the integer 0.
\<close>

definition get_analytics :: "float_ops \<Rightarrow> state \<Rightarrow> analytics_reply" where
  "get_analytics py st =
     (let a = analytics_data st
      in \<lparr>ar_total_conversations = total_conversations a,
          ar_executive_usage = executive_usage a,
          ar_daily_stats = daily_stats a,
          ar_average_response_time =
            (if response_times a \<noteq> []
             then float_round2 py (float_div py (float_sum py (response_times a))
                                              (length (response_times a)))
             else 0),
          ar_most_popular_executive =
            (case executive_usage a of
               [] \<Rightarrow> None
             | x # xs \<Rightarrow> Some (fst (py_max_scan x xs)))\<rparr>)"

text \<open>
  The states the service can be in: the one it starts in, and the one a call leaves
  behind when it completes in a state the service can be in.
\<close>

inductive reachable :: "state \<Rightarrow> bool" where
  start: "reachable initial_state"
| call: "reachable st \<Longrightarrow> get_executive_responses e history_at_start st request = Inr (r, st') \<Longrightarrow> reachable st'"

subsection \<open>Reading a counter\<close>

text \<open>The count that a counting dictionary holds for a key; a key it lacks counts 0.\<close>

definition counter :: "(string \<times> int) list \<Rightarrow> string \<Rightarrow> int" where
  "counter d k = (case map_of d k of None \<Rightarrow> 0 | Some c \<Rightarrow> c)"

subsection \<open>Sample surroundings for concrete evaluations\<close>

text \<open>
  A generation service whose second task of a fan-out fails while the others answer
  with the message framed by blanks, a fixed clock, and a webhook that accepts.
\<close>

definition sample_client :: "nat \<Rightarrow> string \<Rightarrow> string \<Rightarrow> completion" where
  "sample_client i prompt msg =
     (if i = 1 then Raised (PyException ''timeout'') else Content ('' Noted: '' @ msg @ '' ''))"

definition sample_env :: env where
  "sample_env = \<lparr>client = sample_client, now_iso = ''2024-05-01T09:30:00'',
                  elapsed = 5 / 4, today = ''2024-05-01''\<rparr>"

definition sample_post :: "slack_payload \<Rightarrow> post_outcome" where
  "sample_post p = Status 200"

definition sample_slack_env :: slack_env where
  "sample_slack_env = \<lparr>SLACK_WEBHOOK_URL = Some ''https://hooks.example/T0'',
                        now_ts = 1714555800, post = sample_post\<rparr>"

definition sample_entry :: "string \<Rightarrow> chat_entry" where
  "sample_entry m = \<lparr>ce_timestamp = ''2024-05-01T09:00:00'', ce_message = m,
                      ce_executives = [], ce_responses = []\<rparr>"

definition sample_state :: state where
  "sample_state =
     \<lparr>chat_history = [sample_entry ''a'', sample_entry ''b''],
      analytics_data = \<lparr>total_conversations = 4,
                        executive_usage = [(''garrett'', 2), (''melon'', 3), (''steve'', 3)],
                        daily_stats = [(''2024-05-01'', 4)],
                        response_times = [5 / 4, 1]\<rparr>\<rparr>"


section \<open>Facts about the building blocks\<close>

lemma py_slice_from_neg:
  "0 < k \<Longrightarrow> py_slice_from xs (- int k) = drop (length xs - k) xs"
  by (auto simp: py_slice_from_def Let_def max_def nat_diff_distrib' )

lemma drop_rev_take: "drop (length xs - k) xs = rev (take k (rev xs))"
  by (simp add: take_rev)

lemma py_slice_from_zero: "py_slice_from xs 0 = xs"
  by (simp add: py_slice_from_def)

lemma py_slice_from_pos: "0 \<le> i \<Longrightarrow> py_slice_from xs i = drop (nat i) xs"
  by (auto simp: py_slice_from_def Let_def min_def)

lemma conversation_context_eq:
  "conversation_context h = py_join '' | '' (map (\<lambda>t. ''User: '' @ ce_message t) (rev (take 3 (rev h))))"
proof (cases "h = []")
  case True
  then show ?thesis by (simp add: conversation_context_def)
next
  case False
  have "py_slice_from h (- 3) = rev (take 3 (rev h))"
    using py_slice_from_neg [of 3 h] by (simp only: drop_rev_take) simp
  with False show ?thesis
    by (simp add: conversation_context_def)
qed

lemma conversation_context_four: "map ce_message h = [''a'', ''b'', ''c'', ''d''] \<Longrightarrow> conversation_context h = ''User: b | User: c | User: d''"
  by (auto simp: conversation_context_eq)

lemma conversation_context_one: "map ce_message h = [''a''] \<Longrightarrow> conversation_context h = ''User: a''"
  by (auto simp: conversation_context_eq)

lemma topic_eq: "topic (render_payload now msg execs) = (if length msg \<le> 200 then msg else take 200 msg @ ''...'')"
  by (simp add: render_payload_def Let_def)

lemma send_payload: "send_slack_notification e msg execs = (Some p, b) \<Longrightarrow> p = render_payload (now_ts e) msg execs"
  by (auto simp: send_slack_notification_def Let_def split: option.splits if_splits post_outcome.splits)

lemma map_of_bump: "map_of (bump k d) = (map_of d)(k \<mapsto> (case map_of d k of None \<Rightarrow> 1 | Some c \<Rightarrow> c + 1))"
  by (simp add: bump_def AList.update_conv' split: option.splits)

lemma counter_bump: "counter (bump k d) k' = counter d k' + (if k' = k then 1 else 0)"
  by (simp add: counter_def map_of_bump split: option.splits)

lemma counter_fold_bump: "counter (fold bump ids d) k = counter d k + int (count_list ids k)"
  by (induction ids arbitrary: d) (auto simp: counter_bump)

lemma get_executive_response_cases:
  "get_executive_response create k m c =
     Inr (case map_of EXECUTIVES k of
            None \<Rightarrow> not_found_text k
          | Some ex \<Rightarrow> (case create (system_prompt ex c) m of
                          Raised x \<Rightarrow> unable_text | Content t \<Rightarrow> strip t))"
  by (simp add: get_executive_response_def get_executive_response_try_def
           split: option.splits completion.splits)

lemma length_gather_results: "length (gather_results e request ctx) = length (tasks request)"
  by (simp add: gather_results_def)

lemma nth_gather_results:
  "i < length (tasks request) \<Longrightarrow>
   gather_results e request ctx ! i =
     get_executive_response (client e i) (tasks request ! i) (message request) ctx"
  by (simp add: gather_results_def nth_enumerate_eq)

lemma gather_results_no_exception:
  "r \<in> set (gather_results e request ctx) \<Longrightarrow> \<exists>s. r = Inr s"
  by (auto simp: gather_results_def get_executive_response_cases)

lemma map_of_store_result:
  "map_of (store_result p rs) =
     (map_of rs)(fst p \<mapsto> (case snd p of Inl x \<Rightarrow> unavailable_text | Inr s \<Rightarrow> s))"
  by (simp add: store_result_def AList.update_conv' split: sum.splits)

lemma keys_store_result: "fst ` set (store_result p rs) = insert (fst p) (fst ` set rs)"
  by (simp add: store_result_def AList.dom_update split: sum.splits)

lemma distinct_store_result:
  "distinct (map fst rs) \<Longrightarrow> distinct (map fst (store_result p rs))"
  by (simp add: store_result_def AList.distinct_update split: sum.splits)

lemma keys_fold_store_result:
  "fst ` set (fold store_result ps rs) = fst ` set ps \<union> fst ` set rs"
  by (induction ps arbitrary: rs) (auto simp: keys_store_result)

lemma distinct_fold_store_result:
  "distinct (map fst rs) \<Longrightarrow> distinct (map fst (fold store_result ps rs))"
  by (induction ps arbitrary: rs) (auto simp: distinct_store_result)

lemma map_of_fold_store_result_last:
  "i < length ps \<Longrightarrow> \<forall>j. i < j \<and> j < length ps \<longrightarrow> fst (ps ! j) \<noteq> fst (ps ! i) \<Longrightarrow>
   map_of (fold store_result ps rs) (fst (ps ! i)) =
     Some (case snd (ps ! i) of Inl x \<Rightarrow> unavailable_text | Inr s \<Rightarrow> s)"
proof (induction ps rule: rev_induct)
  case Nil
  then show ?case by simp
next
  case (snoc p ps)
  show ?case
  proof (cases "i = length ps")
    case True
    then show ?thesis by (simp add: map_of_store_result)
  next
    case False
    with snoc.prems have i: "i < length ps" by simp
    have later: "\<forall>j. i < j \<and> j < length ps \<longrightarrow> fst (ps ! j) \<noteq> fst (ps ! i)"
    proof (intro allI impI)
      fix j assume j: "i < j \<and> j < length ps"
      with snoc.prems(2) have "fst ((ps @ [p]) ! j) \<noteq> fst ((ps @ [p]) ! i)" by simp
      with j i show "fst (ps ! j) \<noteq> fst (ps ! i)" by (simp add: nth_append)
    qed
    have "fst ((ps @ [p]) ! length ps) \<noteq> fst ((ps @ [p]) ! i)"
      using snoc.prems(2) [rule_format, of "length ps"] i by simp
    with i have "fst p \<noteq> fst (ps ! i)" by (simp add: nth_append)
    with snoc.IH [OF i later] i show ?thesis
      by (simp add: map_of_store_result nth_append)
  qed
qed

lemma keys_process_results:
  "length results = length ids \<Longrightarrow> fst ` set (process_results ids results) = set ids"
proof -
  assume "length results = length ids"
  then have "map fst (zip ids results) = ids" by simp
  then have "fst ` set (zip ids results) = set ids" by (metis set_map)
  then show ?thesis by (simp add: process_results_def keys_fold_store_result)
qed

lemma distinct_process_results: "distinct (map fst (process_results ids results))"
  by (simp add: process_results_def distinct_fold_store_result)

lemma get_executive_responses_eq:
  "get_executive_responses e history_at_start st request =
     Inr (\<lparr>responses = process_results (tasks request)
                         (gather_results e request (conversation_context history_at_start)),
           timestamp = now_iso e,
           executives_consulted =
             int (length (process_results (tasks request)
                            (gather_results e request (conversation_context history_at_start))))\<rparr>,
          \<lparr>chat_history = chat_history st @
             [\<lparr>ce_timestamp = now_iso e, ce_message = message request,
               ce_executives = executives request,
               ce_responses = process_results (tasks request)
                                (gather_results e request (conversation_context history_at_start))\<rparr>],
           analytics_data = track_analytics (today e) (executives request) (elapsed e)
                              (analytics_data st)\<rparr>)"
  by (simp add: get_executive_responses_def get_executive_responses_try_def Let_def)

lemma py_max_scan_first_max:
  "\<exists>pre post. b # xs = pre @ py_max_scan b xs # post
     \<and> (\<forall>y\<in>set pre. snd y < snd (py_max_scan b xs))
     \<and> (\<forall>y\<in>set post. snd y \<le> snd (py_max_scan b xs))"
proof (induction xs arbitrary: b)
  case Nil
  show ?case by (intro exI [of _ "[]"]) simp
next
  case (Cons x xs)
  define b' where "b' = (if snd b < snd x then x else b)"
  define r where "r = py_max_scan b' xs"
  have r: "py_max_scan b (x # xs) = r" by (simp add: r_def b'_def)
  have b': "b' = x \<and> snd b < snd x \<or> b' = b \<and> snd x \<le> snd b"
    by (auto simp: b'_def)
  from Cons.IH [of b'] obtain pre post where
    d: "b' # xs = pre @ r # post" and
    lt: "\<forall>y\<in>set pre. snd y < snd r" and le: "\<forall>y\<in>set post. snd y \<le> snd r"
    unfolding r_def by blast
  show ?case unfolding r
  proof (cases pre)
    case Nil
    with d have rb: "r = b'" and post: "post = xs" by simp_all
    from b' show "\<exists>pre post. b # x # xs = pre @ r # post
       \<and> (\<forall>y\<in>set pre. snd y < snd r) \<and> (\<forall>y\<in>set post. snd y \<le> snd r)"
    proof
      assume "b' = x \<and> snd b < snd x"
      with rb le post show ?thesis
        by (intro exI [of _ "[b]"] exI [of _ xs]) simp
    next
      assume "b' = b \<and> snd x \<le> snd b"
      with rb le post show ?thesis
        by (intro exI [of _ "[]"] exI [of _ "x # xs"]) simp
    qed
  next
    case (Cons p pre')
    with d have p: "p = b'" and xs: "xs = pre' @ r # post" by simp_all
    from lt Cons p have "snd b' < snd r" by simp
    with b' have "snd b < snd r" "snd x < snd r" by auto
    with lt le Cons xs show "\<exists>pre post. b # x # xs = pre @ r # post
       \<and> (\<forall>y\<in>set pre. snd y < snd r) \<and> (\<forall>y\<in>set post. snd y \<le> snd r)"
      by (intro exI [of _ "b # x # pre'"] exI [of _ post]) simp
  qed
qed

text \<open>
  What \<open>get_analytics\<close> returns apart from the average, whatever the float operations
  are: the total and the two mappings as stored, and as most popular executive the
  earliest inserted id among those of the greatest count (\<open>None\<close> for an empty mapping).
\<close>

lemma get_analytics_stored_parts:
  "ar_total_conversations (get_analytics py st) = total_conversations (analytics_data st)
   \<and> ar_executive_usage (get_analytics py st) = executive_usage (analytics_data st)
   \<and> ar_daily_stats (get_analytics py st) = daily_stats (analytics_data st)"
  by (simp add: get_analytics_def Let_def)

lemma get_analytics_most_popular_none:
  "executive_usage (analytics_data st) = []
     \<Longrightarrow> ar_most_popular_executive (get_analytics py st) = None"
  by (simp add: get_analytics_def Let_def)

lemma get_analytics_most_popular_first_max:
  assumes "executive_usage (analytics_data st) \<noteq> []"
  shows "\<exists>pre k c post.
           executive_usage (analytics_data st) = pre @ (k, c) # post
           \<and> ar_most_popular_executive (get_analytics py st) = Some k
           \<and> (\<forall>y\<in>set pre. snd y < c) \<and> (\<forall>y\<in>set post. snd y \<le> c)"
proof -
  from assms obtain x xs where u: "executive_usage (analytics_data st) = x # xs"
    by (cases "executive_usage (analytics_data st)") auto
  from py_max_scan_first_max [of x xs] obtain pre post where
    d: "x # xs = pre @ py_max_scan x xs # post"
    and lt: "\<forall>y\<in>set pre. snd y < snd (py_max_scan x xs)"
    and le: "\<forall>y\<in>set post. snd y \<le> snd (py_max_scan x xs)" by blast
  have mp: "ar_most_popular_executive (get_analytics py st) = Some (fst (py_max_scan x xs))"
    by (simp add: get_analytics_def Let_def u)
  from d u have "executive_usage (analytics_data st) =
      pre @ (fst (py_max_scan x xs), snd (py_max_scan x xs)) # post"
    by simp
  with mp lt le show ?thesis by blast
qed

lemma registered_samples:
  "in_EXECUTIVES ''garrett''" "in_EXECUTIVES ''melon''" "in_EXECUTIVES ''steve''"
  "\<not> in_EXECUTIVES ''nobody''"
  by (simp_all add: in_EXECUTIVES_def EXECUTIVES_def)

lemma not_requested_later_iff:
  "k \<notin> set (drop (Suc i) xs) \<longleftrightarrow> (\<forall>j. i < j \<and> j < length xs \<longrightarrow> xs ! j \<noteq> k)"
proof
  assume a: "k \<notin> set (drop (Suc i) xs)"
  show "\<forall>j. i < j \<and> j < length xs \<longrightarrow> xs ! j \<noteq> k"
  proof (intro allI impI)
    fix j assume j: "i < j \<and> j < length xs"
    then have "xs ! j = drop (Suc i) xs ! (j - Suc i)" by simp
    moreover from j have "j - Suc i < length (drop (Suc i) xs)" by auto
    ultimately have "xs ! j \<in> set (drop (Suc i) xs)" by (metis nth_mem)
    with a show "xs ! j \<noteq> k" by auto
  qed
next
  assume a: "\<forall>j. i < j \<and> j < length xs \<longrightarrow> xs ! j \<noteq> k"
  show "k \<notin> set (drop (Suc i) xs)"
  proof
    assume "k \<in> set (drop (Suc i) xs)"
    then obtain n where n: "n < length (drop (Suc i) xs)" "drop (Suc i) xs ! n = k"
      by (auto simp: in_set_conv_nth)
    then have "xs ! (Suc i + n) = k" "i < Suc i + n" "Suc i + n < length xs" by auto
    with a show False by blast
  qed
qed

lemma map_of_process_results:
  assumes i: "i < length ids" and len: "length results = length ids"
    and last: "ids ! i \<notin> set (drop (Suc i) ids)"
  shows "map_of (process_results ids results) (ids ! i) =
           Some (case results ! i of Inl x \<Rightarrow> unavailable_text | Inr s \<Rightarrow> s)"
proof -
  let ?ps = "zip ids results"
  from i len have i': "i < length ?ps" by simp
  have nth: "\<And>j. j < length ?ps \<Longrightarrow> ?ps ! j = (ids ! j, results ! j)" by simp
  have "\<forall>j. i < j \<and> j < length ?ps \<longrightarrow> fst (?ps ! j) \<noteq> fst (?ps ! i)"
    using last len i by (simp add: not_requested_later_iff)
  from map_of_fold_store_result_last [OF i' this, of "[]"] i' show ?thesis
    by (simp add: process_results_def)
qed

lemma strip_noted: "strip '' Noted: hi '' = ''Noted: hi''"
  by (simp add: strip_def isspace_def)

lemma tasks_three:
  "tasks \<lparr>message = ''hi'', executives = [''garrett'', ''melon'', ''steve'']\<rparr>
     = [''garrett'', ''melon'', ''steve'']"
  by (simp add: tasks_def registered_samples)

lemma map_of_fold_bump:
  "map_of (fold bump ids d) k =
     (if k \<in> set ids then Some (counter d k + int (count_list ids k)) else map_of d k)"
proof (induction ids arbitrary: d)
  case Nil
  then show ?case by simp
next
  case (Cons x xs)
  show ?case
    by (simp add: Cons.IH counter_bump) (simp add: map_of_bump counter_def split: option.splits)
qed

lemma send_sample:
  "send_slack_notification sample_slack_env msg [] =
     (Some (render_payload 1714555800 msg []), True)"
  by (simp add: send_slack_notification_def sample_slack_env_def sample_post_def Let_def)

lemma get_chat_history_zero: "get_chat_history st 0 = chat_history st"
  by (simp add: get_chat_history_def py_slice_from_zero)

lemma get_chat_history_positive:
  "0 < limit \<Longrightarrow> get_chat_history st limit = rev (take (nat limit) (rev (chat_history st)))"
  using py_slice_from_neg [of "nat limit" "chat_history st"]
  by (simp add: get_chat_history_def drop_rev_take)

lemma get_chat_history_negative:
  "limit < 0 \<Longrightarrow> get_chat_history st limit = drop (nat (- limit)) (chat_history st)"
  by (simp add: get_chat_history_def py_slice_from_pos)

lemma reachable_counter_nonneg:
  "reachable st \<Longrightarrow> 0 \<le> counter (executive_usage (analytics_data st)) k"
proof (induction rule: reachable.induct)
  case start
  show ?case by (simp add: initial_state_def counter_def)
next
  case (call st e history_at_start request r st')
  from call.hyps(2) have
    "executive_usage (analytics_data st') =
       fold bump (executives request) (executive_usage (analytics_data st))"
    by (auto simp: get_executive_responses_eq track_analytics_def)
  with call.IH show ?case by (simp add: counter_fold_bump)
qed

lemma reachable_history_keys:
  "reachable st \<Longrightarrow> entry \<in> set (chat_history st) \<Longrightarrow> k \<in> fst ` set (ce_responses entry)
     \<Longrightarrow> in_EXECUTIVES k"
proof (induction arbitrary: entry rule: reachable.induct)
  case start
  then show ?case by (simp add: initial_state_def)
next
  case (call st e history_at_start request r st')
  let ?rs = "process_results (tasks request)
               (gather_results e request (conversation_context history_at_start))"
  from call.hyps(2) have h: "chat_history st' = chat_history st @
      [\<lparr>ce_timestamp = now_iso e, ce_message = message request,
        ce_executives = executives request, ce_responses = ?rs\<rparr>]"
    by (auto simp: get_executive_responses_eq)
  have keys: "fst ` set ?rs = set (tasks request)"
    by (simp add: keys_process_results length_gather_results)
  from call.prems(1) h consider "entry \<in> set (chat_history st)" | "ce_responses entry = ?rs"
    by auto
  then show ?case
  proof cases
    case 1
    with call.IH call.prems(2) show ?thesis by blast
  next
    case 2
    with call.prems(2) keys have "k \<in> set (tasks request)" by simp
    then show ?thesis by (simp add: tasks_def)
  qed
qed


section \<open>The claims\<close>

text \<open>
  Claim C1. Every call of \<open>get_executive_responses\<close> returns a reply. The keys of its
  response mapping are exactly the requested ids that the registry holds, each key
  once, and \<open>executives_consulted\<close> is the number of these keys. With an empty list
  of ids the mapping is empty and the count is 0.
\<close>

theorem response_keys_are_registered_requested_ids:
  "(\<exists>r st'. get_executive_responses e history_at_start st request = Inr (r, st')
      \<and> fst ` set (responses r) = set (filter in_EXECUTIVES (executives request))
      \<and> distinct (map fst (responses r))
      \<and> executives_consulted r = int (card (fst ` set (responses r))))
   \<and> (\<exists>r st'. get_executive_responses e history_at_start st \<lparr>message = m, executives = []\<rparr> = Inr (r, st')
      \<and> responses r = [] \<and> executives_consulted r = 0)"
proof -
  let ?rs = "process_results (tasks request)
               (gather_results e request (conversation_context history_at_start))"
  have keys: "fst ` set ?rs = set (filter in_EXECUTIVES (executives request))"
    by (simp add: keys_process_results length_gather_results) (simp add: tasks_def)
  have d: "distinct (map fst ?rs)" by (rule distinct_process_results)
  then have "card (set (map fst ?rs)) = length (map fst ?rs)" by (rule distinct_card)
  then have c: "int (length ?rs) = int (card (fst ` set ?rs))" by simp
  have empty: "process_results (tasks \<lparr>message = m, executives = []\<rparr>) results = []" for results
    by (simp add: process_results_def tasks_def)
  show ?thesis
    by (simp add: get_executive_responses_eq keys d c empty del: set_filter)
qed

text \<open>
  Claim C2, as the code has it. A call returns a reply whatever the generation service
  does. Under the key of the task at position \<open>i\<close> the reply holds the outcome of that
  task alone, whatever the other tasks gave, the fixed text \<open>unable_text\<close> when its
  generation raised and the stripped generated text otherwise, provided the id of the
  task is not requested again further on in the list: an id requested more than once is
  assigned once per task, and its key holds the outcome of its last task.
\<close>

theorem failed_invocation_isolated:
  assumes "i < length (tasks request)"
    and "tasks request ! i \<notin> set (drop (Suc i) (tasks request))"
  shows "\<exists>r st' ex. get_executive_responses e history_at_start st request = Inr (r, st')
           \<and> map_of EXECUTIVES (tasks request ! i) = Some ex
           \<and> map_of (responses r) (tasks request ! i) =
               Some (case client e i (system_prompt ex (conversation_context history_at_start))
                                     (message request) of
                       Raised x \<Rightarrow> unable_text
                     | Content t \<Rightarrow> strip t)"
proof -
  let ?ctx = "conversation_context history_at_start"
  let ?k = "tasks request ! i"
  from assms(1) have "?k \<in> set (tasks request)" by simp
  then have "in_EXECUTIVES ?k" by (simp add: tasks_def)
  then obtain ex where ex: "map_of EXECUTIVES ?k = Some ex"
    by (auto simp: in_EXECUTIVES_def)
  have "map_of (process_results (tasks request) (gather_results e request ?ctx)) ?k =
          Some (case gather_results e request ?ctx ! i of
                  Inl x \<Rightarrow> unavailable_text | Inr s \<Rightarrow> s)"
    using assms by (intro map_of_process_results) (simp_all add: length_gather_results)
  with assms(1) ex have
    "map_of (process_results (tasks request) (gather_results e request ?ctx)) ?k =
       Some (case client e i (system_prompt ex ?ctx) (message request) of
               Raised x \<Rightarrow> unable_text | Content t \<Rightarrow> strip t)"
    by (simp add: nth_gather_results get_executive_response_cases)
  with ex show ?thesis by (simp add: get_executive_responses_eq)
qed

text \<open>
  Claim C2, evaluated: three requested ids, the generation of the second one fails;
  its key holds the fixed text and the two other keys hold their generated text.
\<close>

theorem failed_invocation_isolated_witness:
  "\<exists>r st'. get_executive_responses sample_env [] initial_state
              \<lparr>message = ''hi'', executives = [''garrett'', ''melon'', ''steve'']\<rparr> = Inr (r, st')
     \<and> map_of (responses r) ''garrett'' = Some ''Noted: hi''
     \<and> map_of (responses r) ''melon'' = Some unable_text
     \<and> map_of (responses r) ''steve'' = Some ''Noted: hi''"
  using failed_invocation_isolated [of 0 "\<lparr>message = ''hi'', executives = [''garrett'', ''melon'', ''steve'']\<rparr>"
              sample_env "[]" initial_state]
        failed_invocation_isolated [of 1 "\<lparr>message = ''hi'', executives = [''garrett'', ''melon'', ''steve'']\<rparr>"
              sample_env "[]" initial_state]
        failed_invocation_isolated [of 2 "\<lparr>message = ''hi'', executives = [''garrett'', ''melon'', ''steve'']\<rparr>"
              sample_env "[]" initial_state]
  by (auto simp: tasks_three sample_env_def sample_client_def strip_noted)

text \<open>
  Claim C2 states that the failure of a generation leaves the fixed text under the key
  of its persona. With the ids melon, garrett, garrett, the task at position 1 (for
  garrett) fails and gives the fixed text, the task at position 2 (for garrett again)
  succeeds, and the reply holds the generated text under garrett, not the fixed text.
\<close>

theorem failed_invocation_overwritten:
  "tasks \<lparr>message = ''hi'', executives = [''melon'', ''garrett'', ''garrett'']\<rparr> ! 1 = ''garrett''
   \<and> gather_results sample_env
         \<lparr>message = ''hi'', executives = [''melon'', ''garrett'', ''garrett'']\<rparr>
         (conversation_context []) ! 1 = Inr unable_text
   \<and> map_of (responses (fst (projr (get_executive_responses sample_env [] initial_state
         \<lparr>message = ''hi'', executives = [''melon'', ''garrett'', ''garrett'']\<rparr>)))) ''garrett''
       = Some ''Noted: hi''
   \<and> map_of (responses (fst (projr (get_executive_responses sample_env [] initial_state
         \<lparr>message = ''hi'', executives = [''melon'', ''garrett'', ''garrett'']\<rparr>)))) ''garrett''
       \<noteq> Some unable_text"
proof -
  let ?req = "\<lparr>message = ''hi'', executives = [''melon'', ''garrett'', ''garrett'']\<rparr>"
  have t: "tasks ?req = [''melon'', ''garrett'', ''garrett'']"
    by (simp add: tasks_def registered_samples)
  have ok: "get_executive_response (sample_client i) k ''hi'' c = Inr ''Noted: hi''"
    if "in_EXECUTIVES k" and "i \<noteq> 1" for i k c
    using that
    by (auto simp: get_executive_response_cases in_EXECUTIVES_def sample_client_def strip_noted)
  have bad: "get_executive_response (sample_client 1) k ''hi'' c = Inr unable_text"
    if "in_EXECUTIVES k" for k c
    using that
    by (auto simp: get_executive_response_cases in_EXECUTIVES_def sample_client_def)
  have g: "gather_results sample_env ?req (conversation_context [])
             = [Inr ''Noted: hi'', Inr unable_text, Inr ''Noted: hi'']"
    using ok [of "''melon''" 0] bad [of "''garrett''"] ok [of "''garrett''" "Suc (Suc 0)"]
    by (simp add: gather_results_def t sample_env_def registered_samples)
  have r: "process_results (tasks ?req) (gather_results sample_env ?req (conversation_context []))
             = [(''melon'', ''Noted: hi''), (''garrett'', ''Noted: hi'')]"
    by (simp add: g t process_results_def store_result_def)
  have ne: "''Noted: hi'' \<noteq> unable_text" by (simp add: unable_text_def)
  from t g r ne show ?thesis by (simp add: get_executive_responses_eq)
qed

text \<open>
  Claim C3. The context is built from the last three entries of the history (from
  all of them when there are fewer, and it is empty for an empty history): the input
  message of each, labelled \<open>User: \<close>, oldest first, separated by \<open> | \<close>. Messages
  a, b, c, d give the context of b, c, d in that order; the single message a gives
  the context of a alone.
\<close>

theorem conversation_context_last_three:
  "conversation_context h =
     py_join '' | '' (map (\<lambda>t. ''User: '' @ ce_message t) (rev (take 3 (rev h))))
   \<and> conversation_context [] = []
   \<and> (map ce_message h = [''a'', ''b'', ''c'', ''d'']
        \<longrightarrow> conversation_context h = ''User: b | User: c | User: d'')
   \<and> (map ce_message h = [''a''] \<longrightarrow> conversation_context h = ''User: a'')"
proof (intro conjI impI)
  show "conversation_context h =
     py_join '' | '' (map (\<lambda>t. ''User: '' @ ce_message t) (rev (take 3 (rev h))))"
    by (rule conversation_context_eq)
  show "conversation_context [] = []" by (simp add: conversation_context_def)
  show "conversation_context h = ''User: b | User: c | User: d''"
    if "map ce_message h = [''a'', ''b'', ''c'', ''d'']" using that by (rule conversation_context_four)
  show "conversation_context h = ''User: a''" if "map ce_message h = [''a'']"
    using that by (rule conversation_context_one)
qed

text \<open>
  Claim C3, evaluated on a history of four entries and on a history of one entry.
\<close>

theorem conversation_context_last_three_witness:
  "conversation_context [sample_entry ''a'', sample_entry ''b'', sample_entry ''c'', sample_entry ''d'']
     = ''User: b | User: c | User: d''
   \<and> conversation_context [sample_entry ''a''] = ''User: a''"
  using conversation_context_last_three [of "[sample_entry ''a'', sample_entry ''b'', sample_entry ''c'', sample_entry ''d'']"]
        conversation_context_last_three [of "[sample_entry ''a'']"]
  by (simp add: sample_entry_def)

text \<open>
  Claim C4. One call of \<open>track_analytics\<close> raises the total by exactly 1 whatever the
  list of ids is, raises the count of every id by the number of its occurrences in the
  list (an id new to the mapping starts from 0) and leaves the other ids alone, raises
  the bucket of the day by 1 and leaves the other days alone, and appends the sample to
  the list of response times. Two calls with the ids x and y raise the total by 2 and
  the counts of x and of y by 2 each.
\<close>

theorem track_analytics_counts:
  "total_conversations (track_analytics day ids t a) = total_conversations a + 1
   \<and> map_of (executive_usage (track_analytics day ids t a)) k =
       (if k \<in> set ids then Some (counter (executive_usage a) k + int (count_list ids k))
        else map_of (executive_usage a) k)
   \<and> map_of (daily_stats (track_analytics day ids t a)) dk =
       (if dk = day then Some (counter (daily_stats a) day + 1) else map_of (daily_stats a) dk)
   \<and> response_times (track_analytics day ids t a) = response_times a @ [t]
   \<and> total_conversations (track_analytics day2 [''x'', ''y''] t2 (track_analytics day1 [''x'', ''y''] t1 a))
       = total_conversations a + 2
   \<and> counter (executive_usage (track_analytics day2 [''x'', ''y''] t2 (track_analytics day1 [''x'', ''y''] t1 a))) ''x''
       = counter (executive_usage a) ''x'' + 2
   \<and> counter (executive_usage (track_analytics day2 [''x'', ''y''] t2 (track_analytics day1 [''x'', ''y''] t1 a))) ''y''
       = counter (executive_usage a) ''y'' + 2"
proof -
  have daily: "map_of (bump day d) dk =
      (if dk = day then Some (counter d day + 1) else map_of d dk)" for d
    by (simp add: map_of_bump counter_def split: option.splits)
  show ?thesis
    unfolding track_analytics_def
    by (simp add: map_of_fold_bump daily counter_bump)
qed

text \<open>
  Claim C6. The topic of the notification payload is the message itself when it has at
  most 200 characters, and its first 200 characters followed by three dots when it is
  longer; this is the topic of every payload that \<open>send_slack_notification\<close> posts. A
  message of 250 characters is cut, a message of 50 characters is passed unchanged.
\<close>

theorem notification_topic_truncated:
  "topic (render_payload now msg execs) =
     (if length msg \<le> 200 then msg else take 200 msg @ ''...'')
   \<and> (send_slack_notification e msg execs = (Some p, b)
        \<longrightarrow> topic p = (if length msg \<le> 200 then msg else take 200 msg @ ''...''))
   \<and> (length msg = 250 \<longrightarrow> topic (render_payload now msg execs) = take 200 msg @ ''...'')
   \<and> (length msg = 50 \<longrightarrow> topic (render_payload now msg execs) = msg)"
  using send_payload [of e msg execs p b] by (auto simp: topic_eq)

text \<open>
  Claim C6, evaluated with a configured webhook on messages of 250 and of 50
  characters.
\<close>

theorem notification_topic_truncated_witness:
  "send_slack_notification sample_slack_env (replicate 250 CHR ''x'') [] =
     (Some (render_payload 1714555800 (replicate 250 CHR ''x'') []), True)
   \<and> topic (render_payload 1714555800 (replicate 250 CHR ''x'') []) = replicate 200 CHR ''x'' @ ''...''
   \<and> topic (render_payload 1714555800 (replicate 50 CHR ''x'') []) = replicate 50 CHR ''x''"
  using notification_topic_truncated [of 1714555800 "replicate 250 CHR ''x''" "[]" sample_slack_env
               "render_payload 1714555800 (replicate 250 CHR ''x'') []" True]
        notification_topic_truncated [of 1714555800 "replicate 50 CHR ''x''" "[]" sample_slack_env
               "render_payload 1714555800 (replicate 50 CHR ''x'') []" True]
  by (simp add: send_sample)

text \<open>
  Claim C7, as the code has it. Every call returns a reply and appends exactly one
  entry to the end of the history, the earlier entries unchanged. The entry holds the
  time stamp of the reply, the input message, the list of ids of the request as it was
  sent, and the response mapping of the reply, whose keys are exactly the requested ids
  that the registry holds.
\<close>

theorem history_appended_entry:
  "\<exists>r st'. get_executive_responses e history_at_start st request = Inr (r, st')
     \<and> chat_history st' = chat_history st @
          [\<lparr>ce_timestamp = timestamp r, ce_message = message request,
            ce_executives = executives request, ce_responses = responses r\<rparr>]
     \<and> fst ` set (responses r) = set (filter in_EXECUTIVES (executives request))"
proof -
  have "fst ` set (process_results (tasks request)
               (gather_results e request (conversation_context history_at_start)))
        = set (filter in_EXECUTIVES (executives request))"
    by (simp add: keys_process_results length_gather_results) (simp add: tasks_def)
  then show ?thesis by (simp add: get_executive_responses_eq del: set_filter)
qed

text \<open>
  Claim C7 states that the ids stored in the appended entry are the registered ones
  only. The entry stores \<open>request.executives\<close> itself: after a request for one
  registered and one unknown id the stored ids differ from the registered ones.
\<close>

theorem history_entry_ids_unfiltered:
  "set (ce_executives (last (chat_history (snd (projr
      (get_executive_responses sample_env [] initial_state
         \<lparr>message = ''hi'', executives = [''garrett'', ''nobody'']\<rparr>))))))
   \<noteq> set (filter in_EXECUTIVES [''garrett'', ''nobody''])"
  by (simp add: get_executive_responses_eq registered_samples)

text \<open>
  Claim C8. The endpoint evaluates \<open>chat_history[-limit:]\<close>. For a positive limit this
  is the most recent \<open>limit\<close> entries (\<open>get_chat_history_positive\<close>). At limit 0 the
  slice starts at index 0: with two entries stored, the call returns both, where the
  most recent 0 entries would be none; in any state it returns the whole history.
\<close>

theorem get_chat_history_limit_zero_returns_all:
  "get_chat_history sample_state 0 = [sample_entry ''a'', sample_entry ''b'']
   \<and> get_chat_history sample_state 0 \<noteq> []
   \<and> get_chat_history st 0 = chat_history st"
  by (simp add: get_chat_history_zero sample_state_def)

text \<open>
  Claim C9. \<open>get_executive_response\<close> always returns a string and lets no exception
  escape: the text \<open>not_found_text\<close> for an id outside the registry, the stripped
  generated text when the generation succeeds, the text \<open>unable_text\<close> when it raises.
  So no element of the gathered results is an exception, and the branch of the result
  loop for exceptions is never taken.
\<close>

theorem get_executive_response_never_raises:
  "(\<exists>s. get_executive_response create k m c = Inr s)
   \<and> (map_of EXECUTIVES k = None
        \<longrightarrow> get_executive_response create k m c = Inr (not_found_text k))
   \<and> (map_of EXECUTIVES k = Some ex \<and> create (system_prompt ex c) m = Content t
        \<longrightarrow> get_executive_response create k m c = Inr (strip t))
   \<and> (map_of EXECUTIVES k = Some ex \<and> create (system_prompt ex c) m = Raised x
        \<longrightarrow> get_executive_response create k m c = Inr unable_text)
   \<and> (\<forall>r\<in>set (gather_results e request ctx). \<exists>s. r = Inr s)"
  using gather_results_no_exception [of _ e request ctx]
  by (auto simp: get_executive_response_cases)

text \<open>
  Claim C9, evaluated for an unknown id, a successful and a failing generation, and
  the results gathered for two tasks.
\<close>

theorem get_executive_response_never_raises_witness:
  "get_executive_response (sample_client 0) ''nobody'' ''hi'' [] = Inr ''Executive nobody not found.''
   \<and> get_executive_response (sample_client 0) ''garrett'' ''hi'' [] = Inr ''Noted: hi''
   \<and> get_executive_response (sample_client 1) ''garrett'' ''hi'' [] = Inr unable_text
   \<and> gather_results sample_env \<lparr>message = ''hi'', executives = [''garrett'', ''melon'']\<rparr> []
        = [Inr ''Noted: hi'', Inr unable_text]"
proof -
  have g: "map_of EXECUTIVES ''garrett'' = Some (the (map_of EXECUTIVES ''garrett''))"
    and n: "map_of EXECUTIVES ''nobody'' = None"
    using registered_samples by (auto simp: in_EXECUTIVES_def)
  let ?ex = "the (map_of EXECUTIVES ''garrett'')"
  have ok: "sample_client 0 (system_prompt ?ex []) ''hi'' = Content '' Noted: hi ''"
    and bad: "sample_client 1 (system_prompt ?ex []) ''hi'' = Raised (PyException ''timeout'')"
    by (simp_all add: sample_client_def)
  note a = get_executive_response_never_raises [of "sample_client 0" "''nobody''" "''hi''" "[]" ?ex "''''" "PyException ''''"
                  sample_env "\<lparr>message = ''hi'', executives = [''garrett'', ''melon'']\<rparr>" "[]"]
  note b = get_executive_response_never_raises [of "sample_client 0" "''garrett''" "''hi''" "[]" ?ex "'' Noted: hi ''"
                  "PyException ''timeout''" sample_env
                  "\<lparr>message = ''hi'', executives = [''garrett'', ''melon'']\<rparr>" "[]"]
  note c = get_executive_response_never_raises [of "sample_client 1" "''garrett''" "''hi''" "[]" ?ex "'' Noted: hi ''"
                  "PyException ''timeout''" sample_env
                  "\<lparr>message = ''hi'', executives = [''garrett'', ''melon'']\<rparr>" "[]"]
  have t: "tasks \<lparr>message = ''hi'', executives = [''garrett'', ''melon'']\<rparr> = [''garrett'', ''melon'']"
    by (simp add: tasks_def registered_samples)
  have m: "get_executive_response (sample_client (Suc 0)) ''melon'' ''hi'' [] = Inr unable_text"
    using registered_samples(2)
    by (auto simp: get_executive_response_cases in_EXECUTIVES_def sample_client_def)
  from a n have 1: "get_executive_response (sample_client 0) ''nobody'' ''hi'' [] = Inr ''Executive nobody not found.''"
    by (simp add: not_found_text_def)
  from b g ok have 2: "get_executive_response (sample_client 0) ''garrett'' ''hi'' [] = Inr ''Noted: hi''"
    by (simp add: strip_noted)
  from c g bad have 3: "get_executive_response (sample_client 1) ''garrett'' ''hi'' [] = Inr unable_text"
    by simp
  have 4: "gather_results sample_env \<lparr>message = ''hi'', executives = [''garrett'', ''melon'']\<rparr> []
        = [Inr ''Noted: hi'', Inr unable_text]"
    using 2 m by (simp add: gather_results_def t sample_env_def)
  from 1 2 3 4 show ?thesis by blast
qed

text \<open>
  Claim C10. The usage counters are fed the requested list as it was sent. In every
  state the service can reach, a call whose request names an id outside the registry
  leaves that id in the usage mapping with a positive count, although no task is
  created for it and it is a key neither of the reply's response mapping nor of the
  response mapping of any entry of the history.
\<close>

theorem unknown_id_counted_in_usage:
  assumes "reachable st" and "k \<in> set (executives request)" and "\<not> in_EXECUTIVES k"
  shows "\<exists>r st'. get_executive_responses e history_at_start st request = Inr (r, st')
     \<and> (\<exists>c. map_of (executive_usage (analytics_data st')) k = Some c \<and> 0 < c)
     \<and> k \<notin> fst ` set (responses r)
     \<and> k \<notin> set (tasks request)
     \<and> (\<forall>entry\<in>set (chat_history st'). k \<notin> fst ` set (ce_responses entry))"
proof -
  let ?rs = "process_results (tasks request)
               (gather_results e request (conversation_context history_at_start))"
  obtain r st' where run: "get_executive_responses e history_at_start st request = Inr (r, st')"
    by (simp add: get_executive_responses_eq)
  with assms(1) have reach: "reachable st'" by (rule reachable.call)
  from run have u: "executive_usage (analytics_data st') =
       fold bump (executives request) (executive_usage (analytics_data st))"
    and rs: "responses r = ?rs"
    by (auto simp: get_executive_responses_eq track_analytics_def)
  from assms(2) have "count_list (executives request) k \<noteq> 0"
    by (simp add: count_list_0_iff)
  then have "0 < count_list (executives request) k" by simp
  with reachable_counter_nonneg [OF assms(1), of k] assms(2)
  have usage: "\<exists>c. map_of (executive_usage (analytics_data st')) k = Some c \<and> 0 < c"
    by (simp add: u map_of_fold_bump)
  from assms(3) have t: "k \<notin> set (tasks request)" by (simp add: tasks_def)
  then have resp: "k \<notin> fst ` set (responses r)"
    by (simp add: rs keys_process_results length_gather_results)
  have hist: "\<forall>entry\<in>set (chat_history st'). k \<notin> fst ` set (ce_responses entry)"
    using reachable_history_keys [OF reach] assms(3) by blast
  from run usage resp t hist show ?thesis by blast
qed

text \<open>
  Claim C10, evaluated on the first call of the service, with one registered and one
  unknown id.
\<close>

theorem unknown_id_counted_in_usage_witness:
  "reachable initial_state \<and> \<not> in_EXECUTIVES ''nobody''
   \<and> (\<exists>r st'. get_executive_responses sample_env [] initial_state
                 \<lparr>message = ''hi'', executives = [''garrett'', ''nobody'']\<rparr> = Inr (r, st')
        \<and> map_of (executive_usage (analytics_data st')) ''nobody'' = Some 1
        \<and> ''nobody'' \<notin> fst ` set (responses r))"
proof -
  have "map_of (executive_usage (track_analytics day [''garrett'', ''nobody''] t
                  (analytics_data initial_state))) ''nobody'' = Some 1" for day t
    by (simp add: track_analytics_def initial_state_def bump_def)
  with unknown_id_counted_in_usage [OF reachable.start, of "''nobody''"
              "\<lparr>message = ''hi'', executives = [''garrett'', ''nobody'']\<rparr>" sample_env "[]"]
    registered_samples(4) reachable.start
  show ?thesis by (auto simp: get_executive_responses_eq)
qed

end
